theory Spec2Isabelle
  imports Main
begin

section \<open>Outcomes of a call\<close>

text \<open>
  A Go call either returns, or ends the process through \<^verbatim>\<open>log.Fatal(err)\<close>, or
  panics (here: dereferencing a nil \<^verbatim>\<open>*string\<close>). The three are kept apart.
\<close>

datatype ('e, 'a) outcome = Returns 'a | Fatal 'e | Panic

section \<open>The regexp library\<close>

text \<open>
  \<^verbatim>\<open>regexp.MatchString(pattern, s)\<close> belongs to Go's standard library. Its body there is
  \<^verbatim>\<open>
  re, err := Compile(pattern)
  if err != nil { return false, err }
  return re.MatchString(s), nil
  \<close>
  The compiler is a parameter \<open>C\<close> of every definition below: it maps a pattern to a
  compile error or to the compiled expression, which is represented by its
  \<^verbatim>\<open>MatchString\<close> method.
\<close>

type_synonym 'e Compile = "string \<Rightarrow> 'e + (string \<Rightarrow> bool)"

definition MatchString :: "'e Compile \<Rightarrow> string \<Rightarrow> string \<Rightarrow> bool \<times> 'e option" where
  "MatchString C pattern s =
     (case C pattern of
        Inl err \<Rightarrow> (False, Some err)
      | Inr re \<Rightarrow> (re s, None))"

section \<open>Data model of \<^verbatim>\<open>resource/filter.go\<close>\<close>

text \<open>\<^verbatim>\<open>time.Time\<close>: an instant, as a number.\<close>

type_synonym Time = int

record Created =
  Before :: Time
  After :: Time

text \<open>
  \<^verbatim>\<open>Ids []*string\<close>: a list of pointers, \<open>None\<close> for a nil pointer (the YAML
  decoder yields one for a null list element).
  \<^verbatim>\<open>Tags map[string]string\<close> is iterated by \<^verbatim>\<open>range\<close>, in an order Go leaves open:
  the association list gives the pairs in the order of one iteration. A nil and an
  empty slice or map are both of length 0 and both the empty list.
\<close>

record configEntry =
  Ids :: "string option list"
  Tags :: "(string \<times> string) list"
  Created :: Created

text \<open>
  \<^verbatim>\<open>type Config map[string]configEntry\<close>, iterated by \<^verbatim>\<open>ResourceTypes\<close>: an association
  list again, read with \<open>map_of\<close>.
\<close>

type_synonym Config = "(string \<times> configEntry) list"

record Filter =
  cfg :: Config

text \<open>
  \<^verbatim>\<open>FilterableResource\<close>. Its \<^verbatim>\<open>Tags\<close> map is only read by key and compared with nil:
  \<open>None\<close> is the nil map, \<open>Some kvs\<close> the map that \<open>map_of kvs\<close> reads.
\<close>

record FilterableResource =
  Type :: string
  ID :: string
  Tags :: "(string \<times> string) list option"

text \<open>The two errors made with \<^verbatim>\<open>errors.New\<close> and the one made with \<^verbatim>\<open>fmt.Errorf\<close>.\<close>

datatype filter_error =
    NoIDEntries  \<comment> \<open>\<^verbatim>\<open>"no entries set in filter to match IDs"\<close>\<close>
  | NoTagEntries  \<comment> \<open>\<^verbatim>\<open>"filter has no tag entries for resource type"\<close>\<close>
  | UnsupportedResourceType string
      \<comment> \<open>\<^verbatim>\<open>"found unsupported resource type '%s' in config file"\<close>\<close>

text \<open>The zero value of \<^verbatim>\<open>configEntry\<close>.\<close>

definition zero_configEntry :: configEntry where
  "zero_configEntry = \<lparr>Ids = [], Tags = [], Created = \<lparr>Before = 0, After = 0\<rparr>\<rparr>"

text \<open>
  \<^verbatim>\<open>cfgEntry, _ := f.cfg[resource.Type]\<close>: the entry, or the zero value when the key is
  missing; the presence flag is dropped.
\<close>

definition cfg_index :: "Config \<Rightarrow> string \<Rightarrow> configEntry" where
  "cfg_index c k = (case map_of c k of Some e \<Rightarrow> e | None \<Rightarrow> zero_configEntry)"

text \<open>\<^verbatim>\<open>tagVal, ok := resource.Tags[cfgTagKey]\<close>; reading a nil map finds nothing.\<close>

definition tags_index :: "(string \<times> string) list option \<Rightarrow> string \<Rightarrow> string option" where
  "tags_index t k = (case t of None \<Rightarrow> None | Some kvs \<Rightarrow> map_of kvs k)"

section \<open>\<^verbatim>\<open>matchID\<close>, \<^verbatim>\<open>matchTags\<close>, \<^verbatim>\<open>Matches\<close>\<close>

text \<open>The loop of \<^verbatim>\<open>matchID\<close> over \<^verbatim>\<open>cfgEntry.Ids\<close>.\<close>

fun matchID_loop ::
  "'e Compile \<Rightarrow> string option list \<Rightarrow> string \<Rightarrow> ('e, bool \<times> filter_error option) outcome"
where
  "matchID_loop C [] rid = Returns (False, None)"
| "matchID_loop C (regex # rest) rid =
     (case regex of
        None \<Rightarrow> Panic
      | Some pat \<Rightarrow>
          (case MatchString C pat rid of
             (ok, err) \<Rightarrow>
               if ok then
                 (case err of Some e \<Rightarrow> Fatal e | None \<Rightarrow> Returns (True, None))
               else matchID_loop C rest rid))"

definition matchID ::
  "'e Compile \<Rightarrow> Filter \<Rightarrow> FilterableResource \<Rightarrow> ('e, bool \<times> filter_error option) outcome"
where
  "matchID C f resource =
     (let cfgEntry = cfg_index (cfg f) (Type resource) in
      if length (Ids cfgEntry) = 0 then Returns (False, Some NoIDEntries)
      else matchID_loop C (Ids cfgEntry) (ID resource))"

text \<open>The loop of \<^verbatim>\<open>matchTags\<close> over \<^verbatim>\<open>cfgEntry.Tags\<close>.\<close>

fun matchTags_loop ::
  "'e Compile \<Rightarrow> (string \<times> string) list \<Rightarrow> (string \<times> string) list option
     \<Rightarrow> ('e, bool \<times> filter_error option) outcome"
where
  "matchTags_loop C [] rtags = Returns (False, None)"
| "matchTags_loop C ((cfgTagKey, regex) # rest) rtags =
     (case tags_index rtags cfgTagKey of
        Some tagVal \<Rightarrow>
          (case MatchString C regex tagVal of
             (res, err) \<Rightarrow>
               if res then
                 (case err of Some e \<Rightarrow> Fatal e | None \<Rightarrow> Returns (True, None))
               else matchTags_loop C rest rtags)
      | None \<Rightarrow> matchTags_loop C rest rtags)"

definition matchTags ::
  "'e Compile \<Rightarrow> Filter \<Rightarrow> FilterableResource \<Rightarrow> ('e, bool \<times> filter_error option) outcome"
where
  "matchTags C f resource =
     (let cfgEntry = cfg_index (cfg f) (Type resource) in
      if length (configEntry.Tags cfgEntry) = 0 then Returns (False, Some NoTagEntries)
      else matchTags_loop C (configEntry.Tags cfgEntry) (FilterableResource.Tags resource))"

text \<open>
  \<^verbatim>\<open>Matches\<close>: \<^verbatim>\<open>matchTags\<close> is called only when the resource's tag map is not nil,
  otherwise \<^verbatim>\<open>matchesTags\<close> and \<^verbatim>\<open>errTags\<close> keep their initial values.
\<close>

definition Matches :: "'e Compile \<Rightarrow> Filter \<Rightarrow> FilterableResource \<Rightarrow> ('e, bool) outcome" where
  "Matches C f resource =
     (case (if FilterableResource.Tags resource \<noteq> None then matchTags C f resource
            else Returns (False, None)) of
        Fatal e \<Rightarrow> Fatal e
      | Panic \<Rightarrow> Panic
      | Returns (matchesTags, errTags) \<Rightarrow>
          (case matchID C f resource of
             Fatal e \<Rightarrow> Fatal e
           | Panic \<Rightarrow> Panic
           | Returns (matchesID, errID) \<Rightarrow>
               if errID \<noteq> None \<and> errTags \<noteq> None then Returns True
               else Returns (matchesID \<or> matchesTags)))"

section \<open>The registry of resource types\<close>

text \<open>
  Of \<^verbatim>\<open>AWSClient\<close> the registry reads the connections, to take their listing methods,
  and calls \<^verbatim>\<open>c.STSconn.GetCallerIdentity\<close>. The record holds the answer of that call for
  the client's credentials: an error, or the \<^verbatim>\<open>Account\<close> field of the result (a
  \<^verbatim>\<open>*string\<close>). The connections are taken to be set, as the session setup leaves them.
\<close>

type_synonym aws_error = string

record AWSClient =
  STSconn_GetCallerIdentity :: "aws_error + string option"

datatype conn =
  EC2conn | ASconn | ELBconn | R53conn | CFconn | EFSconn | IAMconn | KMSconn | S3conn | STSconn

text \<open>The five functions that occur in the \<^verbatim>\<open>Select\<close> field.\<close>

datatype selector =
  filterGeneric | filterEfsFileSystem | filterIamPolicy | filterIamUser | filterKmsKeys

text \<open>\<^verbatim>\<open>ec2.Filter\<close>, with \<^verbatim>\<open>Name *string\<close> and \<^verbatim>\<open>Values []*string\<close>.\<close>

record ec2_Filter =
  Name :: "string option"
  Values :: "string option list"

text \<open>
  A \<^verbatim>\<open>DescribeInput\<close>: the name of the input struct and the fields the literal sets
  (\<^verbatim>\<open>Filters\<close>, or \<^verbatim>\<open>Filter\<close> for NAT gateways).
\<close>

datatype describe_input = Input string "(string \<times> ec2_Filter list) list"

text \<open>
  \<^verbatim>\<open>APIDesc\<close>. \<^verbatim>\<open>Describe\<close> holds a method value \<^verbatim>\<open>c.Xconn.Method\<close>, given by the connection
  and the method's name. The three last fields are nil in the zero value.
\<close>

record APIDesc =
  TerraformType :: string
  DescribeOutputName :: "string list"
  DeleteID :: string
  Describe :: "(conn \<times> string) option"
  DescribeInput :: "describe_input option"
  Select :: "selector option"

definition zero_APIDesc :: APIDesc where
  "zero_APIDesc =
     \<lparr>TerraformType = [], DescribeOutputName = [], DeleteID = [],
      Describe = None, DescribeInput = None, Select = None\<rparr>"

datatype registry_error =
  NoAPIDescFound string  \<comment> \<open>\<^verbatim>\<open>"no APIDesc found for resource type %s"\<close>\<close>

text \<open>\<^verbatim>\<open>accountID\<close>: the account of the caller, or \<^verbatim>\<open>log.Fatal\<close> when the call fails.\<close>

definition accountID :: "AWSClient \<Rightarrow> (aws_error, string option) outcome" where
  "accountID c =
     (case STSconn_GetCallerIdentity c of
        Inl err \<Rightarrow> Fatal err
      | Inr account \<Rightarrow> Returns account)"

text \<open>
  \<^verbatim>\<open>Supported\<close>. The elements of the literal are evaluated in order; the two calls of
  \<^verbatim>\<open>accountID\<close> (for snapshots and for images) are the only ones that can end it.
\<close>

definition Supported :: "AWSClient \<Rightarrow> (aws_error, APIDesc list) outcome" where
  "Supported c =
     (case accountID c of
        Fatal err \<Rightarrow> Fatal err
      | Panic \<Rightarrow> Panic
      | Returns owner1 \<Rightarrow>
     (case accountID c of
        Fatal err \<Rightarrow> Fatal err
      | Panic \<Rightarrow> Panic
      | Returns owner2 \<Rightarrow>
          Returns
            [\<lparr>TerraformType = ''aws_autoscaling_group'',
               DescribeOutputName = [''AutoScalingGroups''],
               DeleteID = ''AutoScalingGroupName'',
               Describe = Some (ASconn, ''DescribeAutoScalingGroups''),
               DescribeInput = Some (Input ''autoscaling.DescribeAutoScalingGroupsInput'' []),
               Select = Some filterGeneric\<rparr>,
             \<lparr>TerraformType = ''aws_launch_configuration'',
               DescribeOutputName = [''LaunchConfigurations''],
               DeleteID = ''LaunchConfigurationName'',
               Describe = Some (ASconn, ''DescribeLaunchConfigurations''),
               DescribeInput = Some (Input ''autoscaling.DescribeLaunchConfigurationsInput'' []),
               Select = Some filterGeneric\<rparr>,
             \<lparr>TerraformType = ''aws_instance'',
               DescribeOutputName = [''Reservations'', ''Instances''],
               DeleteID = ''InstanceId'',
               Describe = Some (EC2conn, ''DescribeInstances''),
               DescribeInput = Some (Input ''ec2.DescribeInstancesInput'' [(''Filters'', [\<lparr>Name = Some ''instance-state-name'', Values = [Some ''pending'', Some ''running'', Some ''stopping'', Some ''stopped'']\<rparr>])]),
               Select = Some filterGeneric\<rparr>,
             \<lparr>TerraformType = ''aws_key_pair'',
               DescribeOutputName = [''KeyPairs''],
               DeleteID = ''KeyName'',
               Describe = Some (EC2conn, ''DescribeKeyPairs''),
               DescribeInput = Some (Input ''ec2.DescribeKeyPairsInput'' []),
               Select = Some filterGeneric\<rparr>,
             \<lparr>TerraformType = ''aws_elb'',
               DescribeOutputName = [''LoadBalancerDescriptions''],
               DeleteID = ''LoadBalancerName'',
               Describe = Some (ELBconn, ''DescribeLoadBalancers''),
               DescribeInput = Some (Input ''elb.DescribeLoadBalancersInput'' []),
               Select = Some filterGeneric\<rparr>,
             \<lparr>TerraformType = ''aws_vpc_endpoint'',
               DescribeOutputName = [''VpcEndpoints''],
               DeleteID = ''VpcEndpointId'',
               Describe = Some (EC2conn, ''DescribeVpcEndpoints''),
               DescribeInput = Some (Input ''ec2.DescribeVpcEndpointsInput'' []),
               Select = Some filterGeneric\<rparr>,
             \<lparr>TerraformType = ''aws_nat_gateway'',
               DescribeOutputName = [''NatGateways''],
               DeleteID = ''NatGatewayId'',
               Describe = Some (EC2conn, ''DescribeNatGateways''),
               DescribeInput = Some (Input ''ec2.DescribeNatGatewaysInput'' [(''Filter'', [\<lparr>Name = Some ''state'', Values = [Some ''available'']\<rparr>])]),
               Select = Some filterGeneric\<rparr>,
             \<lparr>TerraformType = ''aws_cloudformation_stack'',
               DescribeOutputName = [''Stacks''],
               DeleteID = ''StackId'',
               Describe = Some (CFconn, ''DescribeStacks''),
               DescribeInput = Some (Input ''cloudformation.DescribeStacksInput'' []),
               Select = Some filterGeneric\<rparr>,
             \<lparr>TerraformType = ''aws_route53_zone'',
               DescribeOutputName = [''HostedZones''],
               DeleteID = ''Id'',
               Describe = Some (R53conn, ''ListHostedZones''),
               DescribeInput = Some (Input ''route53.ListHostedZonesInput'' []),
               Select = Some filterGeneric\<rparr>,
             \<lparr>TerraformType = ''aws_efs_file_system'',
               DescribeOutputName = [''FileSystems''],
               DeleteID = ''FileSystemId'',
               Describe = Some (EFSconn, ''DescribeFileSystems''),
               DescribeInput = Some (Input ''efs.DescribeFileSystemsInput'' []),
               Select = Some filterEfsFileSystem\<rparr>,
             \<lparr>TerraformType = ''aws_network_interface'',
               DescribeOutputName = [''NetworkInterfaces''],
               DeleteID = ''NetworkInterfaceId'',
               Describe = Some (EC2conn, ''DescribeNetworkInterfaces''),
               DescribeInput = Some (Input ''ec2.DescribeNetworkInterfacesInput'' []),
               Select = Some filterGeneric\<rparr>,
             \<lparr>TerraformType = ''aws_eip'',
               DescribeOutputName = [''Addresses''],
               DeleteID = ''AllocationId'',
               Describe = Some (EC2conn, ''DescribeAddresses''),
               DescribeInput = Some (Input ''ec2.DescribeAddressesInput'' []),
               Select = Some filterGeneric\<rparr>,
             \<lparr>TerraformType = ''aws_internet_gateway'',
               DescribeOutputName = [''InternetGateways''],
               DeleteID = ''InternetGatewayId'',
               Describe = Some (EC2conn, ''DescribeInternetGateways''),
               DescribeInput = Some (Input ''ec2.DescribeInternetGatewaysInput'' []),
               Select = Some filterGeneric\<rparr>,
             \<lparr>TerraformType = ''aws_subnet'',
               DescribeOutputName = [''Subnets''],
               DeleteID = ''SubnetId'',
               Describe = Some (EC2conn, ''DescribeSubnets''),
               DescribeInput = Some (Input ''ec2.DescribeSubnetsInput'' []),
               Select = Some filterGeneric\<rparr>,
             \<lparr>TerraformType = ''aws_route_table'',
               DescribeOutputName = [''RouteTables''],
               DeleteID = ''RouteTableId'',
               Describe = Some (EC2conn, ''DescribeRouteTables''),
               DescribeInput = Some (Input ''ec2.DescribeRouteTablesInput'' []),
               Select = Some filterGeneric\<rparr>,
             \<lparr>TerraformType = ''aws_security_group'',
               DescribeOutputName = [''SecurityGroups''],
               DeleteID = ''GroupId'',
               Describe = Some (EC2conn, ''DescribeSecurityGroups''),
               DescribeInput = Some (Input ''ec2.DescribeSecurityGroupsInput'' []),
               Select = Some filterGeneric\<rparr>,
             \<lparr>TerraformType = ''aws_network_acl'',
               DescribeOutputName = [''NetworkAcls''],
               DeleteID = ''NetworkAclId'',
               Describe = Some (EC2conn, ''DescribeNetworkAcls''),
               DescribeInput = Some (Input ''ec2.DescribeNetworkAclsInput'' []),
               Select = Some filterGeneric\<rparr>,
             \<lparr>TerraformType = ''aws_vpc'',
               DescribeOutputName = [''Vpcs''],
               DeleteID = ''VpcId'',
               Describe = Some (EC2conn, ''DescribeVpcs''),
               DescribeInput = Some (Input ''ec2.DescribeVpcsInput'' []),
               Select = Some filterGeneric\<rparr>,
             \<lparr>TerraformType = ''aws_iam_policy'',
               DescribeOutputName = [''Policies''],
               DeleteID = ''Arn'',
               Describe = Some (IAMconn, ''ListPolicies''),
               DescribeInput = Some (Input ''iam.ListPoliciesInput'' []),
               Select = Some filterIamPolicy\<rparr>,
             \<lparr>TerraformType = ''aws_iam_group'',
               DescribeOutputName = [''Groups''],
               DeleteID = ''GroupName'',
               Describe = Some (IAMconn, ''ListGroups''),
               DescribeInput = Some (Input ''iam.ListGroupsInput'' []),
               Select = Some filterGeneric\<rparr>,
             \<lparr>TerraformType = ''aws_iam_user'',
               DescribeOutputName = [''Users''],
               DeleteID = ''UserName'',
               Describe = Some (IAMconn, ''ListUsers''),
               DescribeInput = Some (Input ''iam.ListUsersInput'' []),
               Select = Some filterIamUser\<rparr>,
             \<lparr>TerraformType = ''aws_iam_role'',
               DescribeOutputName = [''Roles''],
               DeleteID = ''RoleName'',
               Describe = Some (IAMconn, ''ListRoles''),
               DescribeInput = Some (Input ''iam.ListRolesInput'' []),
               Select = Some filterGeneric\<rparr>,
             \<lparr>TerraformType = ''aws_iam_instance_profile'',
               DescribeOutputName = [''InstanceProfiles''],
               DeleteID = ''InstanceProfileName'',
               Describe = Some (IAMconn, ''ListInstanceProfiles''),
               DescribeInput = Some (Input ''iam.ListInstanceProfilesInput'' []),
               Select = Some filterGeneric\<rparr>,
             \<lparr>TerraformType = ''aws_kms_alias'',
               DescribeOutputName = [''Aliases''],
               DeleteID = ''AliasName'',
               Describe = Some (KMSconn, ''ListAliases''),
               DescribeInput = Some (Input ''kms.ListAliasesInput'' []),
               Select = Some filterGeneric\<rparr>,
             \<lparr>TerraformType = ''aws_kms_key'',
               DescribeOutputName = [''Keys''],
               DeleteID = ''KeyId'',
               Describe = Some (KMSconn, ''ListKeys''),
               DescribeInput = Some (Input ''kms.ListKeysInput'' []),
               Select = Some filterKmsKeys\<rparr>,
             \<lparr>TerraformType = ''aws_s3_bucket'',
               DescribeOutputName = [''Buckets''],
               DeleteID = ''Name'',
               Describe = Some (S3conn, ''ListBuckets''),
               DescribeInput = Some (Input ''s3.ListBucketsInput'' []),
               Select = Some filterGeneric\<rparr>,
             \<lparr>TerraformType = ''aws_ebs_snapshot'',
               DescribeOutputName = [''Snapshots''],
               DeleteID = ''SnapshotId'',
               Describe = Some (EC2conn, ''DescribeSnapshots''),
               DescribeInput = Some (Input ''ec2.DescribeSnapshotsInput'' [(''Filters'', [\<lparr>Name = Some ''owner-id'', Values = [owner1]\<rparr>])]),
               Select = Some filterGeneric\<rparr>,
             \<lparr>TerraformType = ''aws_ebs_volume'',
               DescribeOutputName = [''Volumes''],
               DeleteID = ''VolumeId'',
               Describe = Some (EC2conn, ''DescribeVolumes''),
               DescribeInput = Some (Input ''ec2.DescribeVolumesInput'' []),
               Select = Some filterGeneric\<rparr>,
             \<lparr>TerraformType = ''aws_ami'',
               DescribeOutputName = [''Images''],
               DeleteID = ''ImageId'',
               Describe = Some (EC2conn, ''DescribeImages''),
               DescribeInput = Some (Input ''ec2.DescribeImagesInput'' [(''Filters'', [\<lparr>Name = Some ''owner-id'', Values = [owner2]\<rparr>])]),
               Select = Some filterGeneric\<rparr>]))"

text \<open>The loop of \<^verbatim>\<open>getSupported\<close>; without a hit it returns \<^verbatim>\<open>APIDesc{}\<close> and an error.\<close>

fun getSupported_loop :: "string \<Rightarrow> APIDesc list \<Rightarrow> APIDesc \<times> registry_error option" where
  "getSupported_loop resType [] = (zero_APIDesc, Some (NoAPIDescFound resType))"
| "getSupported_loop resType (apiDesc # rest) =
     (if TerraformType apiDesc = resType then (apiDesc, None)
      else getSupported_loop resType rest)"

definition getSupported ::
  "string \<Rightarrow> AWSClient \<Rightarrow> (aws_error, APIDesc \<times> registry_error option) outcome"
where
  "getSupported resType c =
     (case Supported c of
        Fatal err \<Rightarrow> Fatal err
      | Panic \<Rightarrow> Panic
      | Returns as \<Rightarrow> Returns (getSupported_loop resType as))"

section \<open>\<^verbatim>\<open>ResourceTypes\<close> and \<^verbatim>\<open>Validate\<close>\<close>

definition ResourceTypes :: "Filter \<Rightarrow> string list" where
  "ResourceTypes f = map fst (cfg f)"

text \<open>The inner loop of \<^verbatim>\<open>Validate\<close>; the third argument is \<^verbatim>\<open>isTerraformType\<close>.\<close>

fun isTerraformType_loop :: "string \<Rightarrow> APIDesc list \<Rightarrow> bool \<Rightarrow> bool" where
  "isTerraformType_loop resType [] isTerraformType = isTerraformType"
| "isTerraformType_loop resType (a # as) isTerraformType =
     isTerraformType_loop resType as
       (if resType = TerraformType a then True else isTerraformType)"

fun Validate_loop :: "APIDesc list \<Rightarrow> string list \<Rightarrow> filter_error option" where
  "Validate_loop as [] = None"
| "Validate_loop as (resType # rest) =
     (if \<not> isTerraformType_loop resType as False
      then Some (UnsupportedResourceType resType)
      else Validate_loop as rest)"

definition Validate :: "Filter \<Rightarrow> AWSClient \<Rightarrow> (aws_error, filter_error option) outcome" where
  "Validate f c =
     (case Supported c of
        Fatal err \<Rightarrow> Fatal err
      | Panic \<Rightarrow> Panic
      | Returns as \<Rightarrow> Returns (Validate_loop as (ResourceTypes f)))"

section \<open>\<^verbatim>\<open>regexp.Compile\<close> on the patterns of the tests\<close>

text \<open>
  Go's \<^verbatim>\<open>regexp\<close> package lies outside the repository. To run the filter on the
  repository's tests, its compiler is fixed here at the three patterns that
  \<^verbatim>\<open>resource/filter_test.go\<close> configures and at one pattern that does not compile, each as
  the package documents it: \<^verbatim>\<open>^\<close> matches at the beginning of the text, \<^verbatim>\<open>.*\<close> matches
  any run of characters (also the empty one), a pattern of plain letters matches where
  the letters occur, and \<^verbatim>\<open>MatchString\<close> reports whether the string contains any match.
  So \<^verbatim>\<open>^foo.*\<close> matches exactly the strings that begin with \<^verbatim>\<open>foo\<close>, \<^verbatim>\<open>bar\<close> and \<^verbatim>\<open>blub\<close>
  match exactly the strings that contain them, and \<^verbatim>\<open>(\<close> is rejected with
  \<^verbatim>\<open>missing closing )\<close>. At every other pattern the value is left unspecified: nothing
  is said about it.
\<close>

text \<open>\<^verbatim>\<open>strings.HasPrefix\<close> and \<^verbatim>\<open>strings.Contains\<close>.\<close>

definition strings_HasPrefix :: "string \<Rightarrow> string \<Rightarrow> bool" where
  "strings_HasPrefix s prefix = (take (length prefix) s = prefix)"

fun strings_Contains :: "string \<Rightarrow> string \<Rightarrow> bool" where
  "strings_Contains [] substr = (substr = [])"
| "strings_Contains (x # xs) substr =
     (strings_HasPrefix (x # xs) substr \<or> strings_Contains xs substr)"

datatype regexp_error =
  MissingParen  \<comment> \<open>\<^verbatim>\<open>missing closing )\<close>\<close>

definition regexp_Compile :: "regexp_error Compile" where
  "regexp_Compile pattern =
     (if pattern = ''^foo.*'' then Inr (\<lambda>s. strings_HasPrefix s ''foo'')
      else if pattern = ''bar'' then Inr (\<lambda>s. strings_Contains s ''bar'')
      else if pattern = ''blub'' then Inr (\<lambda>s. strings_Contains s ''blub'')
      else if pattern = ''('' then Inl MissingParen
      else undefined)"

section \<open>The fixtures of \<^verbatim>\<open>resource/filter_test.go\<close>\<close>

definition securityGroupType :: string where "securityGroupType = ''aws_security_group''"
definition iamRoleType :: string where "iamRoleType = ''aws_iam_role''"
definition instanceType :: string where "instanceType = ''aws_instance''"
definition vpc :: string where "vpc = ''aws_vpc''"

definition yml :: Config where
  "yml =
     [(iamRoleType,
         \<lparr>Ids = [Some ''^foo.*''], Tags = [], Created = \<lparr>Before = 0, After = 0\<rparr>\<rparr>),
      (securityGroupType,
         \<lparr>Ids = [], Tags = [], Created = \<lparr>Before = 0, After = 0\<rparr>\<rparr>),
      (instanceType,
         \<lparr>Ids = [], Tags = [(''foo'', ''bar''), (''bla'', ''blub'')],
          Created = \<lparr>Before = 0, After = 0\<rparr>\<rparr>),
      (vpc,
         \<lparr>Ids = [Some ''^foo.*''], Tags = [(''foo'', ''bar'')],
          Created = \<lparr>Before = 0, After = 0\<rparr>\<rparr>)]"

definition test_filter :: Filter where
  "test_filter = \<lparr>cfg = yml\<rparr>"

text \<open>A client whose STS call answers, as the mock client of the tests does.\<close>

definition test_client :: AWSClient where
  "test_client = \<lparr>STSconn_GetCallerIdentity = Inr (Some ''123456789012'')\<rparr>"

section \<open>Properties of the filter\<close>

lemmas fixture_defs =
  test_filter_def yml_def securityGroupType_def iamRoleType_def instanceType_def vpc_def

subsection \<open>The loops\<close>

text \<open>
  A match reported by \<^verbatim>\<open>regexp.MatchString\<close> never comes with an error, so the
  \<^verbatim>\<open>log.Fatal\<close> inside the two loops is dead code: \<^verbatim>\<open>matchID\<close> returns or panics on a
  nil pattern, \<^verbatim>\<open>matchTags\<close> always returns.
\<close>

lemma MatchString_ok_no_error: "MatchString C pattern s = (True, err) \<Longrightarrow> err = None"
  by (auto simp: MatchString_def split: sum.splits)

lemma matchID_loop_cases:
  "matchID_loop C ps rid = Panic \<or> (\<exists>b. matchID_loop C ps rid = Returns (b, None))"
proof (induction ps)
  case Nil
  then show ?case by auto
next
  case (Cons regex rest)
  show ?case
  proof (cases regex)
    case None
    then show ?thesis by simp
  next
    case (Some pat)
    show ?thesis
    proof (cases "C pat")
      case (Inl err)
      with Some Cons.IH show ?thesis by (simp add: MatchString_def)
    next
      case (Inr re)
      with Some Cons.IH show ?thesis by (auto simp: MatchString_def)
    qed
  qed
qed

lemma matchID_loop_nonnil:
  "None \<notin> set ps \<Longrightarrow>
     matchID_loop C ps rid = Returns (\<exists>p. Some p \<in> set ps \<and> fst (MatchString C p rid), None)"
proof (induction ps)
  case Nil
  then show ?case by simp
next
  case (Cons regex rest)
  from Cons.prems obtain pat where pat: "regex = Some pat" and rest: "None \<notin> set rest"
    by (cases regex) auto
  show ?case
  proof (cases "C pat")
    case (Inl err)
    with pat Cons.IH [OF rest] show ?thesis by (auto simp: MatchString_def)
  next
    case (Inr re)
    with pat Cons.IH [OF rest] show ?thesis by (auto simp: MatchString_def)
  qed
qed

lemma matchTags_loop_eq:
  "matchTags_loop C ts rtags =
     Returns (\<exists>(k, re) \<in> set ts. \<exists>v. tags_index rtags k = Some v \<and> fst (MatchString C re v), None)"
proof (induction ts)
  case Nil
  then show ?case by simp
next
  case (Cons kre rest)
  obtain k re where kre: "kre = (k, re)" by (cases kre)
  show ?case
  proof (cases "tags_index rtags k")
    case None
    with kre Cons.IH show ?thesis by simp
  next
    case (Some v)
    show ?thesis
    proof (cases "C re")
      case (Inl err)
      with kre Some Cons.IH show ?thesis by (simp add: MatchString_def)
    next
      case (Inr m)
      with kre Some Cons.IH show ?thesis by (auto simp: MatchString_def)
    qed
  qed
qed

lemma matchTags_eq:
  "matchTags C f r =
     (if configEntry.Tags (cfg_index (cfg f) (Type r)) = [] then Returns (False, Some NoTagEntries)
      else Returns (\<exists>(k, re) \<in> set (configEntry.Tags (cfg_index (cfg f) (Type r))).
                      \<exists>v. tags_index (FilterableResource.Tags r) k = Some v
                          \<and> fst (MatchString C re v), None))"
  by (simp add: matchTags_def Let_def matchTags_loop_eq)

lemma matchID_empty:
  "Ids (cfg_index (cfg f) (Type r)) = [] \<Longrightarrow> matchID C f r = Returns (False, Some NoIDEntries)"
  by (simp add: matchID_def)

lemma matchID_nonempty:
  "Ids (cfg_index (cfg f) (Type r)) \<noteq> [] \<Longrightarrow>
     matchID C f r = matchID_loop C (Ids (cfg_index (cfg f) (Type r))) (ID r)"
  by (simp add: matchID_def)

lemma cfg_index_present: "map_of c k = Some e \<Longrightarrow> cfg_index c k = e"
  by (simp add: cfg_index_def)

lemma cfg_index_absent: "map_of c k = None \<Longrightarrow> cfg_index c k = zero_configEntry"
  by (simp add: cfg_index_def)

lemma Matches_no_criteria:
  assumes "Ids (cfg_index (cfg f) (Type r)) = []"
    and "configEntry.Tags (cfg_index (cfg f) (Type r)) = []"
  shows "Matches C f r = Returns (FilterableResource.Tags r \<noteq> None)"
  using assms by (simp add: Matches_def matchTags_eq matchID_empty)

lemma matchID_never_Fatal: "matchID C f r \<noteq> Fatal err"
  using matchID_loop_cases [of C "Ids (cfg_index (cfg f) (Type r))" "ID r"]
  by (auto simp: matchID_def Let_def split: if_splits)

lemma matchTags_never_Fatal: "matchTags C f r \<noteq> Fatal err"
  by (simp add: matchTags_eq)

lemma Matches_never_Fatal: "Matches C f r \<noteq> Fatal err"
  using matchID_never_Fatal [of C f r]
  by (auto simp: Matches_def matchTags_eq split: outcome.splits)

subsection \<open>The patterns of the tests\<close>

lemma strings_HasPrefix_iff: "strings_HasPrefix s prefix \<longleftrightarrow> (\<exists>post. s = prefix @ post)"
proof
  assume "strings_HasPrefix s prefix"
  then have "s = prefix @ drop (length prefix) s"
    unfolding strings_HasPrefix_def by (metis append_take_drop_id)
  then show "\<exists>post. s = prefix @ post" ..
next
  assume "\<exists>post. s = prefix @ post"
  then show "strings_HasPrefix s prefix"
    unfolding strings_HasPrefix_def by auto
qed

lemma strings_Contains_iff:
  "strings_Contains s substr \<longleftrightarrow> (\<exists>pre post. s = pre @ substr @ post)"
proof (induction s)
  case Nil
  then show ?case by simp
next
  case (Cons x xs)
  have "(\<exists>pre post. x # xs = pre @ substr @ post)
      \<longleftrightarrow> (\<exists>post. x # xs = substr @ post) \<or> (\<exists>pre post. xs = pre @ substr @ post)"
  proof
    assume "\<exists>pre post. x # xs = pre @ substr @ post"
    then obtain pre post where s: "x # xs = pre @ substr @ post" by blast
    show "(\<exists>post. x # xs = substr @ post) \<or> (\<exists>pre post. xs = pre @ substr @ post)"
    proof (cases pre)
      case Nil
      with s show ?thesis by auto
    next
      case (Cons y pre')
      with s have "xs = pre' @ substr @ post" by simp
      then show ?thesis by blast
    qed
  next
    assume "(\<exists>post. x # xs = substr @ post) \<or> (\<exists>pre post. xs = pre @ substr @ post)"
    then show "\<exists>pre post. x # xs = pre @ substr @ post"
    proof
      assume "\<exists>post. x # xs = substr @ post"
      then obtain post where "x # xs = [] @ substr @ post" by auto
      then show ?thesis by blast
    next
      assume "\<exists>pre post. xs = pre @ substr @ post"
      then obtain pre post where "x # xs = (x # pre) @ substr @ post" by auto
      then show ?thesis by blast
    qed
  qed
  with Cons.IH show ?case
    by (simp add: strings_HasPrefix_iff)
qed

lemma MatchString_foo_prefix:
  "MatchString regexp_Compile ''^foo.*'' ''foo-lala'' = (True, None)"
  "MatchString regexp_Compile ''^foo.*'' ''lala-foo'' = (False, None)"
  "MatchString regexp_Compile ''^foo.*'' ''some-id'' = (False, None)"
  by (simp_all add: MatchString_def regexp_Compile_def strings_HasPrefix_def)

lemma MatchString_bar:
  "MatchString regexp_Compile ''bar'' ''bar'' = (True, None)"
  "MatchString regexp_Compile ''bar'' ''baz'' = (False, None)"
  by (simp_all add: MatchString_def regexp_Compile_def strings_HasPrefix_def)

lemma MatchString_blub:
  "MatchString regexp_Compile ''blub'' ''blub'' = (True, None)"
  by (simp_all add: MatchString_def regexp_Compile_def strings_HasPrefix_def)

lemma MatchString_open_paren:
  "MatchString regexp_Compile ''('' s = (False, Some MissingParen)"
  by (simp add: MatchString_def regexp_Compile_def)

subsection \<open>\<^verbatim>\<open>Matches\<close>: the combination of the two criteria\<close>

text \<open>
  C1. Let the kind of a resource have an entry in the configuration in which the id
  patterns or the tag patterns are not empty (and no id pattern is a nil pointer). Then
  \<^verbatim>\<open>Matches\<close> returns true if and only if the id patterns are not empty and one of them
  matches the resource's id, or the tag patterns are not empty, the resource's tag map
  is present, and some configured tag key occurs in it with a value that matches the
  key's pattern. Either criterion alone selects; with tag patterns only, a resource
  without a tag map is not selected.
\<close>

theorem Matches_or:
  assumes "map_of (cfg f) (Type r) = Some e"
    and "Ids e \<noteq> [] \<or> configEntry.Tags e \<noteq> []"
    and "None \<notin> set (Ids e)"
  shows "Matches C f r =
    Returns
      ((Ids e \<noteq> [] \<and> (\<exists>p. Some p \<in> set (Ids e) \<and> fst (MatchString C p (ID r))))
       \<or> (configEntry.Tags e \<noteq> []
          \<and> (\<exists>kvs. FilterableResource.Tags r = Some kvs
               \<and> (\<exists>(k, re) \<in> set (configEntry.Tags e).
                     \<exists>v. map_of kvs k = Some v \<and> fst (MatchString C re v)))))"
proof -
  have e: "cfg_index (cfg f) (Type r) = e"
    using assms(1) by (rule cfg_index_present)
  have ids: "matchID C f r =
      (if Ids e = [] then Returns (False, Some NoIDEntries)
       else Returns (\<exists>p. Some p \<in> set (Ids e) \<and> fst (MatchString C p (ID r)), None))"
    using matchID_loop_nonnil [OF assms(3), of C "ID r"]
    by (simp add: matchID_def e)
  show ?thesis
  proof (cases "FilterableResource.Tags r")
    case None
    then show ?thesis using assms(2) by (simp add: Matches_def ids)
  next
    case (Some kvs)
    then show ?thesis
      using assms(2) by (simp add: Matches_def ids matchTags_eq e tags_index_def)
  qed
qed

text \<open>
  C1 on the test configuration: for \<^verbatim>\<open>aws_vpc\<close>, which has both criteria, a matching id
  alone selects, a matching tag alone selects, and neither does not; for \<^verbatim>\<open>aws_instance\<close>,
  which has tag patterns only, a resource with a nil tag map is not selected.
\<close>

theorem Matches_or_witness:
  "Matches regexp_Compile test_filter
     \<lparr>Type = vpc, ID = ''foo-lala'', Tags = Some [(''any'', ''tag'')]\<rparr> = Returns True
   \<and> Matches regexp_Compile test_filter
     \<lparr>Type = vpc, ID = ''some-id'', Tags = Some [(''foo'', ''bar'')]\<rparr> = Returns True
   \<and> Matches regexp_Compile test_filter
     \<lparr>Type = vpc, ID = ''some-id'', Tags = Some [(''any'', ''tag'')]\<rparr> = Returns False
   \<and> Matches regexp_Compile test_filter
     \<lparr>Type = instanceType, ID = ''some-id'', Tags = None\<rparr> = Returns False"
proof -
  let ?v = "\<lparr>Ids = [Some ''^foo.*''], Tags = [(''foo'', ''bar'')],
             Created = \<lparr>Before = 0, After = 0\<rparr>\<rparr>"
  let ?i = "\<lparr>Ids = [], Tags = [(''foo'', ''bar''), (''bla'', ''blub'')],
             Created = \<lparr>Before = 0, After = 0\<rparr>\<rparr>"
  have v: "map_of (cfg test_filter) vpc = Some ?v"
    and i: "map_of (cfg test_filter) instanceType = Some ?i"
    by (simp_all add: fixture_defs)
  have 1: "Matches regexp_Compile test_filter
     \<lparr>Type = vpc, ID = ''foo-lala'', Tags = Some [(''any'', ''tag'')]\<rparr> = Returns True"
    using Matches_or [of test_filter "\<lparr>Type = vpc, ID = ''foo-lala'', Tags = Some [(''any'', ''tag'')]\<rparr>"
        ?v regexp_Compile] v
    by (simp add: MatchString_foo_prefix)
  have 2: "Matches regexp_Compile test_filter
     \<lparr>Type = vpc, ID = ''some-id'', Tags = Some [(''foo'', ''bar'')]\<rparr> = Returns True"
    using Matches_or [of test_filter "\<lparr>Type = vpc, ID = ''some-id'', Tags = Some [(''foo'', ''bar'')]\<rparr>"
        ?v regexp_Compile] v
    by (simp add: MatchString_foo_prefix MatchString_bar)
  have 3: "Matches regexp_Compile test_filter
     \<lparr>Type = vpc, ID = ''some-id'', Tags = Some [(''any'', ''tag'')]\<rparr> = Returns False"
    using Matches_or [of test_filter "\<lparr>Type = vpc, ID = ''some-id'', Tags = Some [(''any'', ''tag'')]\<rparr>"
        ?v regexp_Compile] v
    by (simp add: MatchString_foo_prefix MatchString_bar)
  have 4: "Matches regexp_Compile test_filter
     \<lparr>Type = instanceType, ID = ''some-id'', Tags = None\<rparr> = Returns False"
    using Matches_or [of test_filter "\<lparr>Type = instanceType, ID = ''some-id'', Tags = None\<rparr>"
        ?i regexp_Compile] i
    by simp
  from 1 2 3 4 show ?thesis by simp
qed

subsection \<open>An entry without criteria\<close>

text \<open>
  C2. An entry with no id patterns and no tag patterns is meant to select every resource
  of its kind, also one whose tag map is nil. For the entry of \<^verbatim>\<open>aws_security_group\<close> in
  the test configuration and a resource with a nil tag map, \<^verbatim>\<open>Matches\<close> returns false:
  \<^verbatim>\<open>matchTags\<close> is skipped, \<^verbatim>\<open>errTags\<close> stays nil, and the test for "neither ids nor
  tags" fails.
\<close>

theorem Matches_empty_entry_nil_tags:
  "Matches regexp_Compile test_filter
     \<lparr>Type = securityGroupType, ID = ''any-id'', Tags = None\<rparr> = Returns False"
  by (simp add: Matches_def matchID_def test_filter_def yml_def cfg_index_def
      securityGroupType_def iamRoleType_def)

subsection \<open>A kind that the configuration does not name\<close>

text \<open>
  C3, as stated: a resource whose kind is no key of the configuration is never matched.
  It fails: \<^verbatim>\<open>aws_subnet\<close> is no key of the test configuration, and a subnet that carries
  a tag map is matched.
\<close>

theorem Matches_absent_kind_counterexample:
  "map_of (cfg test_filter) ''aws_subnet'' = None
   \<and> Matches regexp_Compile test_filter
       \<lparr>Type = ''aws_subnet'', ID = ''any-id'', Tags = Some [(''any'', ''tag'')]\<rparr> = Returns True"
  by (simp add: Matches_def matchID_def matchTags_def test_filter_def yml_def cfg_index_def
      zero_configEntry_def securityGroupType_def iamRoleType_def instanceType_def vpc_def)

text \<open>
  C3, amended: for a resource whose kind is no key of the configuration, \<^verbatim>\<open>Matches\<close>
  decides as it does when the kind is present with an entry that has no id and no tag
  patterns (the lookup's presence flag is dropped); in particular the resource is
  selected whenever its tag map is present.
\<close>

theorem Matches_absent_kind:
  assumes "map_of (cfg f) (Type r) = None"
  shows "Matches C f r = Matches C (f\<lparr>cfg := (Type r, zero_configEntry) # cfg f\<rparr>) r
         \<and> (FilterableResource.Tags r \<noteq> None \<longrightarrow> Matches C f r = Returns True)"
proof -
  have z: "cfg_index (cfg f) (Type r) = zero_configEntry"
    using assms by (rule cfg_index_absent)
  have z': "cfg_index (cfg (f\<lparr>cfg := (Type r, zero_configEntry) # cfg f\<rparr>)) (Type r) = zero_configEntry"
    by (simp add: cfg_index_def)
  have "Matches C f r = Returns (FilterableResource.Tags r \<noteq> None)"
    by (rule Matches_no_criteria) (simp_all add: z zero_configEntry_def)
  moreover have "Matches C (f\<lparr>cfg := (Type r, zero_configEntry) # cfg f\<rparr>) r
      = Returns (FilterableResource.Tags r \<noteq> None)"
    by (rule Matches_no_criteria) (simp_all only: z', simp_all add: zero_configEntry_def)
  ultimately show ?thesis by simp
qed

text \<open>
  C3: the amended statement at a subnet with an empty, non-nil tag map.
\<close>

theorem Matches_absent_kind_witness:
  "map_of (cfg test_filter) ''aws_subnet'' = None
   \<and> Matches regexp_Compile test_filter
        \<lparr>Type = ''aws_subnet'', ID = ''i-1'', Tags = Some []\<rparr>
      = Matches regexp_Compile
          \<lparr>cfg = (''aws_subnet'', zero_configEntry) # cfg test_filter\<rparr>
          \<lparr>Type = ''aws_subnet'', ID = ''i-1'', Tags = Some []\<rparr>
   \<and> Matches regexp_Compile test_filter
        \<lparr>Type = ''aws_subnet'', ID = ''i-1'', Tags = Some []\<rparr> = Returns True"
proof -
  have h: "map_of (cfg test_filter) (Type \<lparr>Type = ''aws_subnet'', ID = ''i-1'', Tags = Some []\<rparr>) = None"
    by (simp add: test_filter_def yml_def securityGroupType_def iamRoleType_def
        instanceType_def vpc_def)
  from Matches_absent_kind [OF h, of regexp_Compile] h show ?thesis
    by (auto simp: test_filter_def)
qed

subsection \<open>\<^verbatim>\<open>matchID\<close>\<close>

text \<open>
  C4. For a kind with an entry in the configuration, \<^verbatim>\<open>matchID\<close> returns an error
  exactly when the entry's list of id patterns is empty, and the error is then the
  absence error. Otherwise (no pattern being a nil pointer) it returns, without an
  error, whether at least one of the id patterns matches the resource's id.
\<close>

theorem matchID_spec:
  assumes "map_of (cfg f) (Type r) = Some e"
  shows "((\<exists>b err. matchID C f r = Returns (b, Some err)) \<longleftrightarrow> Ids e = [])
    \<and> (Ids e = [] \<longrightarrow> matchID C f r = Returns (False, Some NoIDEntries))
    \<and> (Ids e \<noteq> [] \<and> None \<notin> set (Ids e) \<longrightarrow>
         matchID C f r =
           Returns (\<exists>p. Some p \<in> set (Ids e) \<and> fst (MatchString C p (ID r)), None))"
proof -
  have e: "cfg_index (cfg f) (Type r) = e"
    using assms by (rule cfg_index_present)
  have a: "Ids e = [] \<Longrightarrow> matchID C f r = Returns (False, Some NoIDEntries)"
    by (simp add: matchID_def e)
  have b: "Ids e \<noteq> [] \<Longrightarrow> matchID C f r = matchID_loop C (Ids e) (ID r)"
    by (simp add: matchID_def e)
  have c: "Ids e \<noteq> [] \<Longrightarrow> \<not> (\<exists>b err. matchID C f r = Returns (b, Some err))"
    using matchID_loop_cases [of C "Ids e" "ID r"] b by auto
  have d: "Ids e \<noteq> [] \<Longrightarrow> None \<notin> set (Ids e) \<Longrightarrow>
      matchID C f r = Returns (\<exists>p. Some p \<in> set (Ids e) \<and> fst (MatchString C p (ID r)), None)"
    using matchID_loop_nonnil [of "Ids e" C "ID r"] b by simp
  from a c d show ?thesis by blast
qed

text \<open>
  C4 on the test configuration: with the id pattern \<^verbatim>\<open>^foo.*\<close> the id \<^verbatim>\<open>foo-lala\<close>
  matches and \<^verbatim>\<open>lala-foo\<close> does not; the entry without id patterns yields the absence
  error.
\<close>

theorem matchID_spec_witness:
  "matchID regexp_Compile test_filter \<lparr>Type = iamRoleType, ID = ''foo-lala'', Tags = None\<rparr>
     = Returns (True, None)
   \<and> matchID regexp_Compile test_filter \<lparr>Type = iamRoleType, ID = ''lala-foo'', Tags = None\<rparr>
     = Returns (False, None)
   \<and> matchID regexp_Compile test_filter
       \<lparr>Type = securityGroupType, ID = ''matches-any-id'', Tags = None\<rparr>
     = Returns (False, Some NoIDEntries)"
proof -
  let ?r = "\<lparr>Ids = [Some ''^foo.*''], Tags = [], Created = \<lparr>Before = 0, After = 0\<rparr>\<rparr>"
  let ?s = "\<lparr>Ids = [], Tags = [], Created = \<lparr>Before = 0, After = 0\<rparr>\<rparr>"
  have r: "map_of (cfg test_filter) iamRoleType = Some ?r"
    and s: "map_of (cfg test_filter) securityGroupType = Some ?s"
    by (simp_all add: fixture_defs)
  have 1: "matchID regexp_Compile test_filter
      \<lparr>Type = iamRoleType, ID = ''foo-lala'', Tags = None\<rparr> = Returns (True, None)"
    using matchID_spec [of test_filter "\<lparr>Type = iamRoleType, ID = ''foo-lala'', Tags = None\<rparr>"
        ?r regexp_Compile] r
    by (simp add: MatchString_foo_prefix)
  have 2: "matchID regexp_Compile test_filter
      \<lparr>Type = iamRoleType, ID = ''lala-foo'', Tags = None\<rparr> = Returns (False, None)"
    using matchID_spec [of test_filter "\<lparr>Type = iamRoleType, ID = ''lala-foo'', Tags = None\<rparr>"
        ?r regexp_Compile] r
    by (simp add: MatchString_foo_prefix)
  have 3: "matchID regexp_Compile test_filter
      \<lparr>Type = securityGroupType, ID = ''matches-any-id'', Tags = None\<rparr>
      = Returns (False, Some NoIDEntries)"
    using matchID_spec [of test_filter
        "\<lparr>Type = securityGroupType, ID = ''matches-any-id'', Tags = None\<rparr>" ?s regexp_Compile] s
    by simp
  from 1 2 3 show ?thesis by simp
qed

subsection \<open>\<^verbatim>\<open>matchTags\<close>\<close>

text \<open>
  C5. For a kind with an entry in the configuration, \<^verbatim>\<open>matchTags\<close> returns the absence
  error exactly when the entry's tag patterns are empty. Otherwise it returns, without
  an error, whether some configured pair of a tag key and a pattern has that very key
  present in the resource's tags with a value that matches the pattern: the key is
  compared for equality, only the value is matched against the pattern.
\<close>

theorem matchTags_spec:
  assumes "map_of (cfg f) (Type r) = Some e"
  shows "matchTags C f r =
     (if configEntry.Tags e = [] then Returns (False, Some NoTagEntries)
      else Returns
        (\<exists>(k, re) \<in> set (configEntry.Tags e).
            \<exists>v. tags_index (FilterableResource.Tags r) k = Some v \<and> fst (MatchString C re v),
         None))"
  using cfg_index_present [OF assms] by (simp add: matchTags_eq)

text \<open>
  C5 on the test configuration, with the tag patterns \<^verbatim>\<open>foo: bar\<close> and \<^verbatim>\<open>bla: blub\<close>: the
  tags \<^verbatim>\<open>foo: bar\<close> and \<^verbatim>\<open>bla: blub\<close> match, \<^verbatim>\<open>foo: baz\<close> and \<^verbatim>\<open>blub: bla\<close> do not; the
  entry without tag patterns yields the absence error.
\<close>

theorem matchTags_spec_witness:
  "matchTags regexp_Compile test_filter
     \<lparr>Type = instanceType, ID = [], Tags = Some [(''foo'', ''bar'')]\<rparr> = Returns (True, None)
   \<and> matchTags regexp_Compile test_filter
     \<lparr>Type = instanceType, ID = [], Tags = Some [(''bla'', ''blub'')]\<rparr> = Returns (True, None)
   \<and> matchTags regexp_Compile test_filter
     \<lparr>Type = instanceType, ID = [], Tags = Some [(''foo'', ''baz'')]\<rparr> = Returns (False, None)
   \<and> matchTags regexp_Compile test_filter
     \<lparr>Type = instanceType, ID = [], Tags = Some [(''blub'', ''bla'')]\<rparr> = Returns (False, None)
   \<and> matchTags regexp_Compile test_filter
     \<lparr>Type = securityGroupType, ID = [], Tags = Some [(''any'', ''tag'')]\<rparr>
     = Returns (False, Some NoTagEntries)"
proof -
  let ?i = "\<lparr>Ids = [], Tags = [(''foo'', ''bar''), (''bla'', ''blub'')],
             Created = \<lparr>Before = 0, After = 0\<rparr>\<rparr>"
  let ?s = "\<lparr>Ids = [], Tags = [], Created = \<lparr>Before = 0, After = 0\<rparr>\<rparr>"
  have i: "map_of (cfg test_filter) instanceType = Some ?i"
    and s: "map_of (cfg test_filter) securityGroupType = Some ?s"
    by (simp_all add: fixture_defs)
  have 1: "matchTags regexp_Compile test_filter
     \<lparr>Type = instanceType, ID = [], Tags = Some [(''foo'', ''bar'')]\<rparr> = Returns (True, None)"
    using matchTags_spec [of test_filter
        "\<lparr>Type = instanceType, ID = [], Tags = Some [(''foo'', ''bar'')]\<rparr>" ?i regexp_Compile] i
    by (simp add: tags_index_def MatchString_bar MatchString_blub)
  have 2: "matchTags regexp_Compile test_filter
     \<lparr>Type = instanceType, ID = [], Tags = Some [(''bla'', ''blub'')]\<rparr> = Returns (True, None)"
    using matchTags_spec [of test_filter
        "\<lparr>Type = instanceType, ID = [], Tags = Some [(''bla'', ''blub'')]\<rparr>" ?i regexp_Compile] i
    by (simp add: tags_index_def MatchString_bar MatchString_blub)
  have 3: "matchTags regexp_Compile test_filter
     \<lparr>Type = instanceType, ID = [], Tags = Some [(''foo'', ''baz'')]\<rparr> = Returns (False, None)"
    using matchTags_spec [of test_filter
        "\<lparr>Type = instanceType, ID = [], Tags = Some [(''foo'', ''baz'')]\<rparr>" ?i regexp_Compile] i
    by (simp add: tags_index_def MatchString_bar MatchString_blub)
  have 4: "matchTags regexp_Compile test_filter
     \<lparr>Type = instanceType, ID = [], Tags = Some [(''blub'', ''bla'')]\<rparr> = Returns (False, None)"
    using matchTags_spec [of test_filter
        "\<lparr>Type = instanceType, ID = [], Tags = Some [(''blub'', ''bla'')]\<rparr>" ?i regexp_Compile] i
    by (simp add: tags_index_def MatchString_bar MatchString_blub)
  have 5: "matchTags regexp_Compile test_filter
     \<lparr>Type = securityGroupType, ID = [], Tags = Some [(''any'', ''tag'')]\<rparr>
     = Returns (False, Some NoTagEntries)"
    using matchTags_spec [of test_filter
        "\<lparr>Type = securityGroupType, ID = [], Tags = Some [(''any'', ''tag'')]\<rparr>" ?s regexp_Compile] s
    by simp
  from 1 2 3 4 5 show ?thesis by simp
qed

subsection \<open>A pattern that does not compile\<close>

text \<open>
  C6. A pattern that does not compile is meant to end the process through
  \<^verbatim>\<open>log.Fatal\<close>. The pattern \<^verbatim>\<open>(\<close> does not compile, yet \<^verbatim>\<open>matchID\<close> and \<^verbatim>\<open>matchTags\<close>
  return "no match" without an error: the error is looked at only inside the branch
  taken when \<^verbatim>\<open>regexp.MatchString\<close> reports a match, and then there is none.
\<close>

theorem malformed_regex_not_fatal:
  "regexp_Compile ''('' = Inl MissingParen
   \<and> matchID regexp_Compile
       \<lparr>cfg = [(iamRoleType,
          \<lparr>Ids = [Some ''(''], Tags = [], Created = \<lparr>Before = 0, After = 0\<rparr>\<rparr>)]\<rparr>
       \<lparr>Type = iamRoleType, ID = ''foo-lala'', Tags = None\<rparr> = Returns (False, None)
   \<and> matchTags regexp_Compile
       \<lparr>cfg = [(instanceType,
          \<lparr>Ids = [], Tags = [(''foo'', ''('')], Created = \<lparr>Before = 0, After = 0\<rparr>\<rparr>)]\<rparr>
       \<lparr>Type = instanceType, ID = ''i-1'', Tags = Some [(''foo'', ''bar'')]\<rparr>
     = Returns (False, None)"
  by (simp add: matchID_def matchTags_def cfg_index_def tags_index_def MatchString_open_paren
      regexp_Compile_def)

section \<open>Properties of the registry and of \<^verbatim>\<open>Validate\<close>\<close>

lemma Supported_returns:
  "Supported c = Returns as \<Longrightarrow>
     map TerraformType as =
       [''aws_autoscaling_group'', ''aws_launch_configuration'', ''aws_instance'',
        ''aws_key_pair'', ''aws_elb'', ''aws_vpc_endpoint'', ''aws_nat_gateway'',
        ''aws_cloudformation_stack'', ''aws_route53_zone'', ''aws_efs_file_system'',
        ''aws_network_interface'', ''aws_eip'', ''aws_internet_gateway'', ''aws_subnet'',
        ''aws_route_table'', ''aws_security_group'', ''aws_network_acl'', ''aws_vpc'',
        ''aws_iam_policy'', ''aws_iam_group'', ''aws_iam_user'', ''aws_iam_role'',
        ''aws_iam_instance_profile'', ''aws_kms_alias'', ''aws_kms_key'', ''aws_s3_bucket'',
        ''aws_ebs_snapshot'', ''aws_ebs_volume'', ''aws_ami'']"
  unfolding Supported_def accountID_def
  by (cases "STSconn_GetCallerIdentity c") auto

lemma Supported_distinct:
  assumes "Supported c = Returns as"
  shows "distinct (map TerraformType as)"
  unfolding Supported_returns [OF assms] by simp

lemma Supported_iff:
  "(\<exists>as. Supported c = Returns as) \<longleftrightarrow> (\<exists>account. STSconn_GetCallerIdentity c = Inr account)"
  unfolding Supported_def accountID_def
  by (cases "STSconn_GetCallerIdentity c") auto

lemma isTerraformType_loop_eq:
  "isTerraformType_loop resType as b \<longleftrightarrow> b \<or> resType \<in> TerraformType ` set as"
  by (induction as arbitrary: b) auto

lemma Validate_loop_None:
  "Validate_loop as ks = None \<longleftrightarrow> (\<forall>k \<in> set ks. k \<in> TerraformType ` set as)"
  by (induction ks) (auto simp: isTerraformType_loop_eq)

lemma Validate_loop_Some:
  "Validate_loop as ks = Some err \<Longrightarrow>
     \<exists>k \<in> set ks. k \<notin> TerraformType ` set as \<and> err = UnsupportedResourceType k"
  by (induction ks) (auto simp: isTerraformType_loop_eq split: if_splits)

lemma Supported_test_client: "\<exists>as. Supported test_client = Returns as"
  by (simp add: Supported_iff test_client_def)

lemma getSupported_loop_hit:
  "distinct (map TerraformType as) \<Longrightarrow> a \<in> set as
     \<Longrightarrow> getSupported_loop (TerraformType a) as = (a, None)"
  by (induction as) auto

lemma getSupported_loop_miss:
  "k \<notin> TerraformType ` set as
     \<Longrightarrow> getSupported_loop k as = (zero_APIDesc, Some (NoAPIDescFound k))"
  by (induction as) auto

text \<open>
  C7. When the registry can be built, \<^verbatim>\<open>Validate\<close> returns no error if and only if
  every key of the configuration is the \<^verbatim>\<open>TerraformType\<close> of some descriptor of the
  registry; and if some key is the type of no descriptor, it returns the error that
  names such a key as an unsupported resource type.
\<close>

theorem Validate_spec:
  assumes "Supported c = Returns as"
  shows "(Validate f c = Returns None
            \<longleftrightarrow> (\<forall>k \<in> set (ResourceTypes f). \<exists>a \<in> set as. k = TerraformType a))
    \<and> ((\<exists>k \<in> set (ResourceTypes f). \<forall>a \<in> set as. k \<noteq> TerraformType a) \<longrightarrow>
         (\<exists>k \<in> set (ResourceTypes f). (\<forall>a \<in> set as. k \<noteq> TerraformType a)
            \<and> Validate f c = Returns (Some (UnsupportedResourceType k))))"
proof -
  have v: "Validate f c = Returns (Validate_loop as (ResourceTypes f))"
    by (simp add: Validate_def assms)
  have 1: "Validate f c = Returns None
      \<longleftrightarrow> (\<forall>k \<in> set (ResourceTypes f). \<exists>a \<in> set as. k = TerraformType a)"
    unfolding v by (auto simp: Validate_loop_None)
  have 2: "\<exists>k \<in> set (ResourceTypes f). (\<forall>a \<in> set as. k \<noteq> TerraformType a)
            \<and> Validate f c = Returns (Some (UnsupportedResourceType k))"
    if "\<exists>k \<in> set (ResourceTypes f). \<forall>a \<in> set as. k \<noteq> TerraformType a"
  proof -
    from that have "Validate_loop as (ResourceTypes f) \<noteq> None"
      by (auto simp: Validate_loop_None)
    then obtain err where err: "Validate_loop as (ResourceTypes f) = Some err" by auto
    from Validate_loop_Some [OF err] show ?thesis
      unfolding v err by auto
  qed
  from 1 2 show ?thesis by blast
qed

text \<open>
  C7 on the tests: the test configuration, whose four kinds are supported (one of them
  with an entry without criteria), passes; a configuration that names
  \<^verbatim>\<open>not_supported_type\<close> beside a supported kind is rejected with that name.
\<close>

theorem Validate_spec_witness:
  "Validate test_filter test_client = Returns None
   \<and> Validate
       \<lparr>cfg = [(securityGroupType,
                 \<lparr>Ids = [], Tags = [], Created = \<lparr>Before = 0, After = 0\<rparr>\<rparr>),
               (''not_supported_type'',
                 \<lparr>Ids = [], Tags = [], Created = \<lparr>Before = 0, After = 0\<rparr>\<rparr>)]\<rparr>
       test_client
     = Returns (Some (UnsupportedResourceType ''not_supported_type''))"
proof -
  from Supported_test_client obtain as where as: "Supported test_client = Returns as" ..
  have mem: "\<And>k. (\<exists>a \<in> set as. k = TerraformType a) \<longleftrightarrow> k \<in> set (map TerraformType as)"
    by auto
  have 1: "Validate test_filter test_client = Returns None"
    using Validate_spec [OF as, of test_filter]
    unfolding mem Supported_returns [OF as]
    by (simp add: ResourceTypes_def fixture_defs)
  let ?f = "\<lparr>cfg = [(securityGroupType,
                 \<lparr>Ids = [], Tags = [], Created = \<lparr>Before = 0, After = 0\<rparr>\<rparr>),
               (''not_supported_type'',
                 \<lparr>Ids = [], Tags = [], Created = \<lparr>Before = 0, After = 0\<rparr>\<rparr>)]\<rparr>"
  have neg: "\<And>k. (\<forall>a \<in> set as. k \<noteq> TerraformType a) \<longleftrightarrow> k \<notin> set (map TerraformType as)"
    by auto
  have 2: "Validate ?f test_client = Returns (Some (UnsupportedResourceType ''not_supported_type''))"
    using Validate_spec [OF as, of ?f]
    unfolding neg mem Supported_returns [OF as]
    by (simp add: ResourceTypes_def fixture_defs)
  from 1 2 show ?thesis by simp
qed

text \<open>
  C8. The kind identifiers of the list that \<^verbatim>\<open>Supported\<close> returns are pairwise distinct;
  \<^verbatim>\<open>getSupported\<close> applied to the identifier of a descriptor of the list returns that
  descriptor and no error; applied to an identifier of no descriptor it returns an
  error (beside the zero descriptor).
\<close>

theorem registry_round_trip:
  assumes "Supported c = Returns as"
  shows "distinct (map TerraformType as)
    \<and> (\<forall>a \<in> set as. getSupported (TerraformType a) c = Returns (a, None))
    \<and> (\<forall>k. k \<notin> TerraformType ` set as \<longrightarrow>
          getSupported k c = Returns (zero_APIDesc, Some (NoAPIDescFound k)))"
  using Supported_distinct [OF assms]
  by (simp add: getSupported_def assms getSupported_loop_hit getSupported_loop_miss)

text \<open>
  C8 for the test client: looking up \<^verbatim>\<open>aws_vpc\<close> gives the descriptor of VPCs, looking up
  \<^verbatim>\<open>not_supported_type\<close> gives the error.
\<close>

theorem registry_round_trip_witness:
  "getSupported ''aws_vpc'' test_client =
     Returns (\<lparr>TerraformType = ''aws_vpc'', DescribeOutputName = [''Vpcs''], DeleteID = ''VpcId'',
               Describe = Some (EC2conn, ''DescribeVpcs''),
               DescribeInput = Some (Input ''ec2.DescribeVpcsInput'' []),
               Select = Some filterGeneric\<rparr>, None)
   \<and> getSupported ''not_supported_type'' test_client =
     Returns (zero_APIDesc, Some (NoAPIDescFound ''not_supported_type''))"
proof -
  let ?d = "\<lparr>TerraformType = ''aws_vpc'', DescribeOutputName = [''Vpcs''], DeleteID = ''VpcId'',
               Describe = Some (EC2conn, ''DescribeVpcs''),
               DescribeInput = Some (Input ''ec2.DescribeVpcsInput'' []),
               Select = Some filterGeneric\<rparr>"
  from Supported_test_client obtain as where as: "Supported test_client = Returns as" ..
  have d: "?d \<in> set as"
    using as unfolding Supported_def accountID_def test_client_def by auto
  have n: "''not_supported_type'' \<notin> TerraformType ` set as"
    using Supported_returns [OF as] unfolding set_map [symmetric] by simp
  from registry_round_trip [OF as] d n show ?thesis
    by fastforce
qed

section \<open>The creation time range\<close>

lemma cfg_index_same_criteria:
  "list_all2 (\<lambda>x y. fst x = fst y \<and> Ids (snd x) = Ids (snd y)
        \<and> configEntry.Tags (snd x) = configEntry.Tags (snd y)) c1 c2
   \<Longrightarrow> Ids (cfg_index c1 k) = Ids (cfg_index c2 k)
       \<and> configEntry.Tags (cfg_index c1 k) = configEntry.Tags (cfg_index c2 k)"
  by (induction c1 c2 rule: list_all2_induct) (auto simp: cfg_index_def)

text \<open>
  C9. \<^verbatim>\<open>Matches\<close> does not read the \<^verbatim>\<open>Created\<close> field: on two configurations that have
  the same kinds in the same order and, kind by kind, the same id patterns and the same
  tag patterns, it gives the same result for every resource.
\<close>

theorem Matches_ignores_Created:
  assumes "list_all2 (\<lambda>x y. fst x = fst y \<and> Ids (snd x) = Ids (snd y)
        \<and> configEntry.Tags (snd x) = configEntry.Tags (snd y)) (cfg f1) (cfg f2)"
  shows "Matches C f1 r = Matches C f2 r"
proof -
  from cfg_index_same_criteria [OF assms, of "Type r"]
  have i: "matchID C f1 r = matchID C f2 r" and t: "matchTags C f1 r = matchTags C f2 r"
    by (simp_all add: matchID_def matchTags_def)
  show ?thesis unfolding Matches_def i t by (rule refl)
qed

text \<open>
  C9 for two configurations that differ in the \<^verbatim>\<open>Created\<close> range of \<^verbatim>\<open>aws_vpc\<close> only.
\<close>

theorem Matches_ignores_Created_witness:
  "Matches regexp_Compile
     \<lparr>cfg = [(vpc, \<lparr>Ids = [Some ''^foo.*''], Tags = [(''foo'', ''bar'')],
                    Created = \<lparr>Before = 0, After = 0\<rparr>\<rparr>)]\<rparr>
     \<lparr>Type = vpc, ID = ''foo-lala'', Tags = Some [(''any'', ''tag'')]\<rparr>
   = Matches regexp_Compile
     \<lparr>cfg = [(vpc, \<lparr>Ids = [Some ''^foo.*''], Tags = [(''foo'', ''bar'')],
                    Created = \<lparr>Before = 1500000000, After = 1400000000\<rparr>\<rparr>)]\<rparr>
     \<lparr>Type = vpc, ID = ''foo-lala'', Tags = Some [(''any'', ''tag'')]\<rparr>"
  by (rule Matches_ignores_Created) simp

end
